theory Spec2Isabelle
  imports Main
begin

section \<open>Request model (main.go, lines 18-56)\<close>

text \<open>
  The JSON request types of main.go. A Go pointer field that may be nil is an
  option. A Go map is the list of its entries in the order in which the
  \<^verbatim>\<open>range\<close> statement visits them in the run at hand. Field names are the
  source's; a suffix tells apart fields that two structs share.
\<close>

record EmailAddress =
  Name :: string
  Email :: string

record Attachment =
  Filename :: string
  Type_att :: string
  Content :: string

record ContentItem =
  Type :: string
  Value :: string

record Personalization =
  To :: "EmailAddress list"
  CC :: "EmailAddress list"
  BCC :: "EmailAddress list"
  Subject :: string
  Headers :: "(string \<times> string) list"
  DKIMDomain :: string
  DKIMPrivateKey :: string
  DKIMSelector :: string
  ReplyTo :: "EmailAddress option"
  From :: EmailAddress

record MailSendBody =
  Headers_mb :: "(string \<times> string) list"
  Personalizations :: "Personalization list"
  Attachments :: "Attachment list"
  ReplyTo_mb :: "EmailAddress option"
  Subject_mb :: string
  From_mb :: EmailAddress
  MailFrom :: "EmailAddress option"
  Content_mb :: "ContentItem list"

abbreviation nl :: string where
  "nl \<equiv> [CHR 0x0A]"

section \<open>Library operations used by main.go\<close>

subsection \<open>strconv.Atoi\<close>

text \<open>
  Go's \<^verbatim>\<open>strconv.Atoi(s)\<close> is \<^verbatim>\<open>ParseInt(s, 10, 0)\<close> with a 64-bit
  \<^verbatim>\<open>int\<close>. It returns a value together with an error: 0 with a syntax
  error, and the bound of the range with a range error. The unsigned scan stops at
  the first overflow, before it looks at the characters that follow.
\<close>

datatype NumError = ErrSyntax | ErrRange

definition isDigit :: "char \<Rightarrow> bool" where
  "isDigit c = (c \<in> set ''0123456789'')"

definition digitVal :: "char \<Rightarrow> nat" where
  "digitVal c = of_char c - 48"

definition maxUint64 :: nat where
  "maxUint64 = 18446744073709551615"

fun parseUintLoop :: "nat \<Rightarrow> string \<Rightarrow> nat \<times> NumError option" where
  "parseUintLoop n [] = (n, None)"
| "parseUintLoop n (c # cs) =
     (if \<not> isDigit c then (0, Some ErrSyntax)
      else if n \<ge> maxUint64 div 10 + 1 then (maxUint64, Some ErrRange)
      else if n * 10 + digitVal c > maxUint64 then (maxUint64, Some ErrRange)
      else parseUintLoop (n * 10 + digitVal c) cs)"

definition ParseUint :: "string \<Rightarrow> nat \<times> NumError option" where
  "ParseUint s = (if s = [] then (0, Some ErrSyntax) else parseUintLoop 0 s)"

definition ParseInt :: "string \<Rightarrow> int \<times> NumError option" where
  "ParseInt s =
     (if s = [] then (0, Some ErrSyntax)
      else
        let neg = (hd s = CHR ''-'');
            s1 = (if hd s = CHR ''+'' \<or> hd s = CHR ''-'' then tl s else s);
            (un, err) = ParseUint s1
        in if err = Some ErrSyntax then (0, err)
           else if \<not> neg \<and> un \<ge> 9223372036854775808
             then (9223372036854775807, Some ErrRange)
           else if neg \<and> un > 9223372036854775808
             then (- 9223372036854775808, Some ErrRange)
           else (if neg then - int un else int un, None))"

definition Atoi :: "string \<Rightarrow> int \<times> NumError option" where
  "Atoi s = ParseInt s"

subsection \<open>gomail.v2: messages and the dialer\<close>

text \<open>
  A gomail message holds a header map, the body parts and the attachments.
  \<^verbatim>\<open>SetHeader\<close> stores the encoded values under the field, replacing what the
  field held; \<^verbatim>\<open>SetBody\<close> replaces every part set before; \<^verbatim>\<open>Attach\<close>
  appends a file. A part is its content type and text, an attachment the name given
  to \<^verbatim>\<open>Attach\<close> and the bytes its copy function writes.
\<close>

record Message =
  header :: "string \<rightharpoonup> string list"
  parts :: "(string \<times> string) list"
  attachments :: "(string \<times> string) list"

record Dialer =
  Host :: string
  Port :: int
  Username :: string
  Password :: string
  SSL :: bool
  TLSConfig :: "unit option"

datatype smtp_outcome = Delivered | DialFailed string | SendFailed string

text \<open>
  What lies outside main.go: the process environment (\<^verbatim>\<open>os.Getenv\<close>, the empty
  string for an unset variable), base64 decoding (\<open>Inl\<close> the error text), gomail's
  address formatter and header encoder, and the relay, which decides the outcome of
  the \<open>i\<close>-th \<^verbatim>\<open>DialAndSend\<close> call of a request (counted from 0).
\<close>

record World =
  Getenv :: "string \<Rightarrow> string"
  DecodeString :: "string \<Rightarrow> string + string"
  FormatAddress :: "string \<Rightarrow> string \<Rightarrow> string"
  EncodeString :: "string \<Rightarrow> string"
  Relay :: "nat \<Rightarrow> Dialer \<Rightarrow> Message \<Rightarrow> smtp_outcome"

definition NewMessage :: Message where
  "NewMessage = \<lparr>header = Map.empty, parts = [], attachments = []\<rparr>"

definition SetHeader :: "World \<Rightarrow> string \<Rightarrow> string list \<Rightarrow> Message \<Rightarrow> Message" where
  "SetHeader w field vs m = m\<lparr>header := (header m)(field \<mapsto> map (EncodeString w) vs)\<rparr>"

definition SetBody :: "string \<Rightarrow> string \<Rightarrow> Message \<Rightarrow> Message" where
  "SetBody contentType body m = m\<lparr>parts := [(contentType, body)]\<rparr>"

definition Attach :: "string \<Rightarrow> string \<Rightarrow> Message \<Rightarrow> Message" where
  "Attach filename bytes m = m\<lparr>attachments := attachments m @ [(filename, bytes)]\<rparr>"

definition NewDialer :: "string \<Rightarrow> int \<Rightarrow> string \<Rightarrow> string \<Rightarrow> Dialer" where
  "NewDialer host port username password =
     \<lparr>Host = host, Port = port, Username = username, Password = password,
      SSL = (port = 465), TLSConfig = None\<rparr>"

text \<open>
  \<^verbatim>\<open>DialAndSend\<close> opens a connection, sends the message over it and closes it.
  The events record what reached the network: every call dials, and the message is
  sent once the dial has succeeded.
\<close>

datatype event = Dial Dialer | Send Message

fun isDial :: "event \<Rightarrow> bool" where
  "isDial (Dial d) = True"
| "isDial (Send m) = False"

fun relayError :: "smtp_outcome \<Rightarrow> string option" where
  "relayError Delivered = None"
| "relayError (DialFailed e) = Some e"
| "relayError (SendFailed e) = Some e"

fun relayEvents :: "smtp_outcome \<Rightarrow> Dialer \<Rightarrow> Message \<Rightarrow> event list" where
  "relayEvents (DialFailed e) d m = [Dial d]"
| "relayEvents out d m = [Dial d, Send m]"

definition DialAndSend :: "World \<Rightarrow> nat \<Rightarrow> Dialer \<Rightarrow> Message \<Rightarrow> string option \<times> event list" where
  "DialAndSend w i d m = (relayError (Relay w i d m), relayEvents (Relay w i d m) d m)"

section \<open>Dry-run renderer (main.go, lines 208-252)\<close>

fun Join :: "string list \<Rightarrow> string \<Rightarrow> string" where
  "Join [] sep = []"
| "Join [x] sep = x"
| "Join (x # y # ys) sep = x @ sep @ Join (y # ys) sep"

definition formatEntry :: "EmailAddress \<Rightarrow> string" where
  "formatEntry addr = Name addr @ '' <'' @ Email addr @ ''>''"

definition formatAddressList :: "EmailAddress list \<Rightarrow> string" where
  "formatAddressList addresses = Join (map formatEntry addresses) '', ''"

text \<open>The writes of \<^verbatim>\<open>renderMessage\<close>, block by block in the order of the source.\<close>

definition renderEnvelope :: "MailSendBody \<Rightarrow> Personalization \<Rightarrow> string" where
  "renderEnvelope mailBody p =
     ''From: '' @ Name (From_mb mailBody) @ '' <'' @ Email (From_mb mailBody) @ ''>'' @ nl
     @ ''To: '' @ formatAddressList (To p) @ nl
     @ (if length (CC p) > 0 then ''CC: '' @ formatAddressList (CC p) @ nl else [])
     @ (if length (BCC p) > 0 then ''BCC: '' @ formatAddressList (BCC p) @ nl else [])
     @ ''Subject: '' @ Subject p @ nl"

definition renderReplyTo :: "MailSendBody \<Rightarrow> Personalization \<Rightarrow> string" where
  "renderReplyTo mailBody p =
     (case ReplyTo p of
        Some r \<Rightarrow> ''Reply-To: '' @ Name r @ '' <'' @ Email r @ ''>'' @ nl
      | None \<Rightarrow>
          (case ReplyTo_mb mailBody of
             Some r \<Rightarrow> ''Reply-To: '' @ Name r @ '' <'' @ Email r @ ''>'' @ nl
           | None \<Rightarrow> []))"

definition renderHeaders :: "Personalization \<Rightarrow> string" where
  "renderHeaders p = concat (map (\<lambda>(k, v). k @ '': '' @ v @ nl) (Headers p))"

definition renderContent :: "MailSendBody \<Rightarrow> string" where
  "renderContent mailBody =
     concat (map (\<lambda>content. ''Content-Type: '' @ Type content @ nl @ nl @ Value content @ nl @ nl)
               (Content_mb mailBody))"

definition renderAttachments :: "MailSendBody \<Rightarrow> string" where
  "renderAttachments mailBody =
     concat (map (\<lambda>attachment.
                    ''Attachment: '' @ Filename attachment @ '' (Type: '' @ Type_att attachment @ '')'' @ nl)
               (Attachments mailBody))"

definition renderMessage :: "MailSendBody \<Rightarrow> Personalization \<Rightarrow> string" where
  "renderMessage mailBody p =
     renderEnvelope mailBody p @ renderReplyTo mailBody p @ renderHeaders p @ nl
     @ renderContent mailBody @ renderAttachments mailBody"

section \<open>SMTP sender (main.go, lines 139-206)\<close>

datatype error =
    InvalidEncrypt string
  | DecodeFailed string
  | SendFailure string

fun Error :: "error \<Rightarrow> string" where
  "Error (InvalidEncrypt v) = ''invalid SMTP_ENCRYPT value: '' @ v"
| "Error (DecodeFailed e) = ''failed to decode attachment content: '' @ e"
| "Error (SendFailure e) = ''failed to send email: '' @ e"

text \<open>Lines 140-159: the dialer is built from the environment, then the switch.\<close>

definition configureDialer :: "World \<Rightarrow> error + Dialer" where
  "configureDialer w =
     (let smtpHost = Getenv w ''SMTP_HOST'';
          smtpUser = Getenv w ''SMTP_USER'';
          smtpPassword = Getenv w ''SMTP_PASSWORD'';
          smtpPort = fst (Atoi (Getenv w ''SMTP_PORT''));
          smtpEncrypt = Getenv w ''SMTP_ENCRYPT'';
          d = NewDialer smtpHost smtpPort smtpUser smtpPassword
      in if smtpEncrypt = ''SSL'' then Inr (d\<lparr>SSL := True\<rparr>)
         else if smtpEncrypt = ''TLS'' then Inr (d\<lparr>SSL := False, TLSConfig := None\<rparr>)
         else if smtpEncrypt = ''PLAIN'' then Inr (d\<lparr>SSL := False, TLSConfig := None\<rparr>)
         else Inl (InvalidEncrypt smtpEncrypt))"

text \<open>Lines 162-187: headers and body of the message of one personalization.\<close>

definition setAddresses :: "World \<Rightarrow> string \<Rightarrow> EmailAddress list \<Rightarrow> Message \<Rightarrow> Message" where
  "setAddresses w field addrs m =
     fold (\<lambda>a. SetHeader w field [FormatAddress w (Email a) (Name a)]) addrs m"

definition setReplyTo :: "World \<Rightarrow> MailSendBody \<Rightarrow> Personalization \<Rightarrow> Message \<Rightarrow> Message" where
  "setReplyTo w mailBody p m =
     (case ReplyTo p of
        Some r \<Rightarrow> SetHeader w ''Reply-To'' [FormatAddress w (Email r) (Name r)] m
      | None \<Rightarrow>
          (case ReplyTo_mb mailBody of
             Some r \<Rightarrow> SetHeader w ''Reply-To'' [FormatAddress w (Email r) (Name r)] m
           | None \<Rightarrow> m))"

definition composeMessage :: "World \<Rightarrow> MailSendBody \<Rightarrow> Personalization \<Rightarrow> Message" where
  "composeMessage w mailBody p =
     (let m0 = NewMessage;
          m1 = SetHeader w ''From''
                 [FormatAddress w (Email (From_mb mailBody)) (Name (From_mb mailBody))] m0;
          m2 = setAddresses w ''To'' (To p) m1;
          m3 = setAddresses w ''Cc'' (CC p) m2;
          m4 = setAddresses w ''Bcc'' (BCC p) m3;
          m5 = SetHeader w ''Subject'' [Subject p] m4;
          m6 = setReplyTo w mailBody p m5;
          m7 = fold (\<lambda>(k, v). SetHeader w k [v]) (Headers p) m6
      in fold (\<lambda>content. SetBody (Type content) (Value content)) (Content_mb mailBody) m7)"

text \<open>Lines 189-198: the attachments, with the early return of the decode error.\<close>

fun attachAll :: "World \<Rightarrow> Attachment list \<Rightarrow> Message \<Rightarrow> error + Message" where
  "attachAll w [] m = Inr m"
| "attachAll w (attachment # rest) m =
     (case DecodeString w (Content attachment) of
        Inl err \<Rightarrow> Inl (DecodeFailed err)
      | Inr decodedContent \<Rightarrow> attachAll w rest (Attach (Filename attachment) decodedContent m))"

definition buildMessage :: "World \<Rightarrow> MailSendBody \<Rightarrow> Personalization \<Rightarrow> error + Message" where
  "buildMessage w mailBody p = attachAll w (Attachments mailBody) (composeMessage w mailBody p)"

text \<open>
  Lines 161-205: the loop over the personalizations. \<open>i\<close> counts the
  \<^verbatim>\<open>DialAndSend\<close> calls made so far; the result is the returned error
  (\<open>None\<close> for nil) and the events of the calls.
\<close>

fun sendLoop :: "World \<Rightarrow> Dialer \<Rightarrow> MailSendBody \<Rightarrow> nat \<Rightarrow> Personalization list
                 \<Rightarrow> error option \<times> event list" where
  "sendLoop w d mailBody i [] = (None, [])"
| "sendLoop w d mailBody i (p # ps) =
     (case buildMessage w mailBody p of
        Inl err \<Rightarrow> (Some err, [])
      | Inr m \<Rightarrow>
          (case fst (DialAndSend w i d m) of
             Some err \<Rightarrow> (Some (SendFailure err), snd (DialAndSend w i d m))
           | None \<Rightarrow>
               (fst (sendLoop w d mailBody (Suc i) ps),
                snd (DialAndSend w i d m) @ snd (sendLoop w d mailBody (Suc i) ps))))"

definition sendEmails :: "World \<Rightarrow> MailSendBody \<Rightarrow> error option \<times> event list" where
  "sendEmails w mailBody =
     (case configureDialer w of
        Inl err \<Rightarrow> (Some err, [])
      | Inr d \<Rightarrow> sendLoop w d mailBody 0 (Personalizations mailBody))"

section \<open>HTTP handler (main.go, lines 106-137)\<close>

text \<open>
  A request is its method, its query parameters in the order of the URL, and the
  outcome of decoding its body as JSON (\<open>None\<close> when \<^verbatim>\<open>Decode\<close> returns an
  error). A response is the status and the body: the plain text written by
  \<^verbatim>\<open>http.Error\<close> for a message, the JSON object with the one key
  \<^verbatim>\<open>data\<close>, or nothing.
\<close>

record Request =
  Method :: string
  Query :: "(string \<times> string) list"
  Body :: "MailSendBody option"

datatype resp_body = Plain string | JsonData "string list" | Empty

record Response =
  Status :: nat
  RespBody :: resp_body

definition QueryGet :: "(string \<times> string) list \<Rightarrow> string \<Rightarrow> string" where
  "QueryGet q key = (case map_of q key of Some v \<Rightarrow> v | None \<Rightarrow> [])"

definition httpError :: "string \<Rightarrow> nat \<Rightarrow> Response" where
  "httpError msg code = \<lparr>Status = code, RespBody = Plain msg\<rparr>"

text \<open>Lines 122-125: the slice of rendered messages, filled by index.\<close>

definition renderAll :: "MailSendBody \<Rightarrow> string list" where
  "renderAll mailBody =
     fold (\<lambda>(i, p) renderedMessages. renderedMessages[i := renderMessage mailBody p])
       (enumerate 0 (Personalizations mailBody))
       (replicate (length (Personalizations mailBody)) [])"

definition handleSendEmail :: "World \<Rightarrow> Request \<Rightarrow> Response \<times> event list" where
  "handleSendEmail w r =
     (if Method r \<noteq> ''POST'' then (httpError ''Method not allowed'' 405, [])
      else case Body r of
        None \<Rightarrow> (httpError ''Invalid request body'' 400, [])
      | Some mailBody \<Rightarrow>
          if QueryGet (Query r) ''dry-run'' = ''true''
          then (\<lparr>Status = 200, RespBody = JsonData (renderAll mailBody)\<rparr>, [])
          else (case fst (sendEmails w mailBody) of
                  Some err \<Rightarrow> (httpError (Error err) 500, snd (sendEmails w mailBody))
                | None \<Rightarrow> (\<lparr>Status = 202, RespBody = Empty\<rparr>, snd (sendEmails w mailBody))))"

section \<open>Example requests and environments\<close>

text \<open>
  The zero values are what decoding the JSON object \<^verbatim>\<open>{}\<close> leaves in a struct.
  The example world's decoder and formatter agree with base64 decoding and with
  gomail's formatter on the strings used below: a name of plain letters is quoted,
  an empty name leaves the bare address.
\<close>

definition zeroAddress :: EmailAddress where
  "zeroAddress = \<lparr>Name = [], Email = []\<rparr>"

definition zeroPersonalization :: Personalization where
  "zeroPersonalization =
     \<lparr>To = [], CC = [], BCC = [], Subject = [], Headers = [], DKIMDomain = [],
      DKIMPrivateKey = [], DKIMSelector = [], ReplyTo = None, From = zeroAddress\<rparr>"

definition zeroMailSendBody :: MailSendBody where
  "zeroMailSendBody =
     \<lparr>Headers_mb = [], Personalizations = [], Attachments = [], ReplyTo_mb = None,
      Subject_mb = [], From_mb = zeroAddress, MailFrom = None, Content_mb = []\<rparr>"

definition addrA :: EmailAddress where
  "addrA = \<lparr>Name = ''A'', Email = ''a@x.com''\<rparr>"

definition addrB :: EmailAddress where
  "addrB = \<lparr>Name = ''B'', Email = ''b@y.com''\<rparr>"

definition addrC :: EmailAddress where
  "addrC = \<lparr>Name = ''C'', Email = ''c@z.com''\<rparr>"

definition helloTo :: "EmailAddress list \<Rightarrow> Personalization" where
  "helloTo addrs = zeroPersonalization\<lparr>To := addrs, Subject := ''Hello''\<rparr>"

definition plainHi :: ContentItem where
  "plainHi = \<lparr>Type = ''text/plain'', Value = ''hi''\<rparr>"

definition htmlHi :: ContentItem where
  "htmlHi = \<lparr>Type = ''text/html'', Value = ''<b>hi</b>''\<rparr>"

definition exampleBody :: "Personalization list \<Rightarrow> MailSendBody" where
  "exampleBody ps = zeroMailSendBody\<lparr>From_mb := addrA, Content_mb := [plainHi], Personalizations := ps\<rparr>"

definition exampleEnv :: "string \<Rightarrow> string \<Rightarrow> string \<Rightarrow> string" where
  "exampleEnv port encrypt key =
     (if key = ''SMTP_HOST'' then ''smtp.example.com''
      else if key = ''SMTP_USER'' then ''user''
      else if key = ''SMTP_PASSWORD'' then ''secret''
      else if key = ''SMTP_PORT'' then port
      else if key = ''SMTP_ENCRYPT'' then encrypt
      else [])"

definition exampleDecode :: "string \<Rightarrow> string + string" where
  "exampleDecode s =
     (if s = ''aGk='' then Inr ''hi''
      else if s = [] then Inr []
      else Inl ''illegal base64 data at input byte 0'')"

definition exampleFormat :: "string \<Rightarrow> string \<Rightarrow> string" where
  "exampleFormat address name =
     (if name = [] then address else [CHR 0x22] @ name @ [CHR 0x22] @ '' <'' @ address @ ''>'')"

definition exampleWorld :: "string \<Rightarrow> string \<Rightarrow> (nat \<Rightarrow> smtp_outcome) \<Rightarrow> World" where
  "exampleWorld port encrypt relay =
     \<lparr>Getenv = exampleEnv port encrypt, DecodeString = exampleDecode,
      FormatAddress = exampleFormat, EncodeString = (\<lambda>s. s),
      Relay = (\<lambda>i d m. relay i)\<rparr>"

definition exampleDialer :: Dialer where
  "exampleDialer =
     \<lparr>Host = ''smtp.example.com'', Port = 587, Username = ''user'', Password = ''secret'',
      SSL = False, TLSConfig = None\<rparr>"

definition postRequest :: "(string \<times> string) list \<Rightarrow> MailSendBody \<Rightarrow> Request" where
  "postRequest q mailBody = \<lparr>Method = ''POST'', Query = q, Body = Some mailBody\<rparr>"

definition alwaysDelivered :: "nat \<Rightarrow> smtp_outcome" where [simp]:
  "alwaysDelivered i = Delivered"

definition relayDown :: "nat \<Rightarrow> smtp_outcome" where [simp]:
  "relayDown i = DialFailed ''connection refused''"

definition secondRejected :: "nat \<Rightarrow> smtp_outcome" where [simp]:
  "secondRejected i = (if i = 1 then SendFailed ''550 rejected'' else Delivered)"

definition badAttachment :: Attachment where
  "badAttachment = \<lparr>Filename = ''a.txt'', Type_att = ''text/plain'', Content = ''!!!''\<rparr>"

definition customReplyTo :: "EmailAddress option \<Rightarrow> Personalization" where
  "customReplyTo r =
     zeroPersonalization\<lparr>To := [addrB], Subject := ''Hello'', ReplyTo := r,
       Headers := [(''Reply-To'', ''custom@h.com'')]\<rparr>"

section \<open>Auxiliary facts\<close>

subsection \<open>The slice of rendered messages\<close>

text \<open>
  Filling the slice by index gives the renderings in the order of the personalizations.
\<close>

lemma fold_enumerate_update:
  "length acc = n + length xs \<Longrightarrow>
   fold (\<lambda>(i, p) a. a[i := f p]) (enumerate n xs) acc = take n acc @ map f xs"
proof (induction xs arbitrary: n acc)
  case Nil
  then show ?case by simp
next
  case (Cons x xs)
  have len: "length (acc[n := f x]) = Suc n + length xs"
    using Cons.prems by simp
  have "n < length acc" using Cons.prems by simp
  then have tk: "take (Suc n) (acc[n := f x]) = take n acc @ [f x]"
    by (simp add: take_Suc_conv_app_nth)
  show ?case
    using Cons.IH [OF len] tk by simp
qed

lemma renderAll_map:
  "renderAll mailBody = map (renderMessage mailBody) (Personalizations mailBody)"
  unfolding renderAll_def
  using fold_enumerate_update [of "replicate (length (Personalizations mailBody)) []" 0
          "Personalizations mailBody" "renderMessage mailBody"]
  by simp

subsection \<open>Setters of the message\<close>

lemma header_SetHeader:
  "header (SetHeader w field vs m) k =
     (if k = field then Some (map (EncodeString w) vs) else header m k)"
  by (simp add: SetHeader_def)

lemma parts_SetHeader: "parts (SetHeader w field vs m) = parts m"
  by (simp add: SetHeader_def)

lemma header_setAddresses:
  "header (setAddresses w field addrs m) k =
     (if k = field \<and> addrs \<noteq> []
      then Some [EncodeString w (FormatAddress w (Email (last addrs)) (Name (last addrs)))]
      else header m k)"
  unfolding setAddresses_def
  by (induction addrs arbitrary: m) (auto simp: header_SetHeader)

lemma header_custom:
  "k \<notin> fst ` set hs \<Longrightarrow> header (fold (\<lambda>(k, v). SetHeader w k [v]) hs m) k = header m k"
  by (induction hs arbitrary: m) (auto simp: header_SetHeader)

lemma header_bodies:
  "header (fold (\<lambda>content. SetBody (Type content) (Value content)) cs m) = header m"
  by (induction cs arbitrary: m) (auto simp: SetBody_def)

lemma parts_bodies:
  "parts (fold (\<lambda>content. SetBody (Type content) (Value content)) cs m) =
     (if cs = [] then parts m else [(Type (last cs), Value (last cs))])"
  by (induction cs arbitrary: m) (auto simp: SetBody_def)

lemma attachAll_keeps:
  "attachAll w atts m = Inr m' \<Longrightarrow> header m' = header m \<and> parts m' = parts m"
  by (induction atts arbitrary: m) (auto simp: Attach_def split: sum.splits)

lemma attachAll_fails:
  "a \<in> set atts \<Longrightarrow> DecodeString w (Content a) = Inl e \<Longrightarrow>
   \<exists>e'. attachAll w atts m = Inl (DecodeFailed e')"
  by (induction atts arbitrary: m) (auto split: sum.splits)

subsection \<open>The loop over the personalizations\<close>

lemma sendLoop_all_delivered:
  "(\<forall>j < length ps. \<exists>m. buildMessage w mb (ps ! j) = Inr m \<and> Relay w (i + j) d m = Delivered)
   \<Longrightarrow> fst (sendLoop w d mb i ps) = None"
proof (induction ps arbitrary: i)
  case Nil
  then show ?case by simp
next
  case (Cons p ps)
  from Cons.prems have "\<exists>m. buildMessage w mb ((p # ps) ! 0) = Inr m \<and> Relay w (i + 0) d m = Delivered"
    by blast
  then obtain m where m: "buildMessage w mb p = Inr m" "Relay w i d m = Delivered"
    by auto
  have "\<forall>j < length ps. \<exists>m. buildMessage w mb (ps ! j) = Inr m \<and> Relay w (Suc i + j) d m = Delivered"
  proof (intro allI impI)
    fix j assume "j < length ps"
    then have "Suc j < length (p # ps)" by simp
    with Cons.prems have "\<exists>m. buildMessage w mb ((p # ps) ! Suc j) = Inr m \<and> Relay w (i + Suc j) d m = Delivered"
      by blast
    then show "\<exists>m. buildMessage w mb (ps ! j) = Inr m \<and> Relay w (Suc i + j) d m = Delivered"
      by simp
  qed
  then have "fst (sendLoop w d mb (Suc i) ps) = None"
    by (rule Cons.IH)
  with m show ?case
    by (simp add: DialAndSend_def)
qed

lemma sendLoop_dials:
  "fst (sendLoop w d mb i ps) = None \<Longrightarrow>
   length (filter isDial (snd (sendLoop w d mb i ps))) = length ps"
proof (induction ps arbitrary: i)
  case Nil
  then show ?case by simp
next
  case (Cons p ps)
  from Cons.prems obtain m where m: "buildMessage w mb p = Inr m"
    by (cases "buildMessage w mb p") auto
  from Cons.prems m have ok: "relayError (Relay w i d m) = None"
    by (cases "relayError (Relay w i d m)") (auto simp: DialAndSend_def)
  then have out: "Relay w i d m = Delivered"
    by (cases "Relay w i d m") auto
  from Cons.prems m ok have "fst (sendLoop w d mb (Suc i) ps) = None"
    by (simp add: DialAndSend_def)
  then have "length (filter isDial (snd (sendLoop w d mb (Suc i) ps))) = length ps"
    by (rule Cons.IH)
  with m out show ?case
    by (simp add: DialAndSend_def)
qed

lemma sendLoop_fail:
  "k < length ps \<Longrightarrow>
   (\<forall>j \<le> k. buildMessage w mb (ps ! j) = Inr (msg (i + j))) \<Longrightarrow>
   (\<forall>j < k. Relay w (i + j) d (msg (i + j)) = Delivered) \<Longrightarrow>
   relayError (Relay w (i + k) d (msg (i + k))) = Some e \<Longrightarrow>
   sendLoop w d mb i ps =
     (Some (SendFailure e),
      concat (map (\<lambda>j. [Dial d, Send (msg j)]) [i ..< i + k])
      @ relayEvents (Relay w (i + k) d (msg (i + k))) d (msg (i + k)))"
proof (induction ps arbitrary: i k)
  case Nil
  then show ?case by simp
next
  case (Cons p ps)
  have b0: "buildMessage w mb p = Inr (msg i)"
    using Cons.prems(2) by (metis add.right_neutral le0 nth_Cons_0)
  show ?case
  proof (cases k)
    case 0
    with Cons.prems(4) b0 show ?thesis
      by (simp add: DialAndSend_def)
  next
    case (Suc k')
    have klen: "k' < length ps" using Cons.prems(1) Suc by simp
    have bs: "\<forall>j \<le> k'. buildMessage w mb (ps ! j) = Inr (msg (Suc i + j))"
    proof (intro allI impI)
      fix j assume "j \<le> k'"
      then have "Suc j \<le> k" using Suc by simp
      with Cons.prems(2) have "buildMessage w mb ((p # ps) ! Suc j) = Inr (msg (i + Suc j))"
        by blast
      then show "buildMessage w mb (ps ! j) = Inr (msg (Suc i + j))" by simp
    qed
    have ds: "\<forall>j < k'. Relay w (Suc i + j) d (msg (Suc i + j)) = Delivered"
    proof (intro allI impI)
      fix j assume "j < k'"
      then have "Suc j < k" using Suc by simp
      with Cons.prems(3) have "Relay w (i + Suc j) d (msg (i + Suc j)) = Delivered"
        by blast
      then show "Relay w (Suc i + j) d (msg (Suc i + j)) = Delivered" by simp
    qed
    have fl: "relayError (Relay w (Suc i + k') d (msg (Suc i + k'))) = Some e"
      using Cons.prems(4) Suc by simp
    have d0: "Relay w i d (msg i) = Delivered"
      using Cons.prems(3) Suc by (metis add.right_neutral zero_less_Suc)
    have rest: "sendLoop w d mb (Suc i) ps =
       (Some (SendFailure e),
        concat (map (\<lambda>j. [Dial d, Send (msg j)]) [Suc i ..< Suc i + k'])
        @ relayEvents (Relay w (Suc i + k') d (msg (Suc i + k'))) d (msg (Suc i + k')))"
      by (rule Cons.IH [OF klen bs ds fl])
    have up: "[i ..< i + k] = i # [Suc i ..< Suc i + k']"
      using Suc by (simp add: upt_conv_Cons)
    show ?thesis
      using b0 d0 rest up Suc by (simp add: DialAndSend_def)
  qed
qed

subsection \<open>Evaluations of Atoi and of the examples\<close>

lemma atoi587: "Atoi ''587'' = (587, None)"
  by (simp add: Atoi_def ParseInt_def ParseUint_def isDigit_def digitVal_def maxUint64_def)

lemma atoi_big: "Atoi ''99999999999999999999x'' = (9223372036854775807, Some ErrRange)"
  by (simp add: Atoi_def ParseInt_def ParseUint_def isDigit_def digitVal_def maxUint64_def)

lemma atoi_abc: "Atoi ''abc'' = (0, Some ErrSyntax)"
  by (simp add: Atoi_def ParseInt_def ParseUint_def isDigit_def digitVal_def maxUint64_def)

lemma atoi_neg: "Atoi ''-25'' = (-25, None)"
  by (simp add: Atoi_def ParseInt_def ParseUint_def isDigit_def digitVal_def maxUint64_def)

lemma atoi_plus: "Atoi ''+'' = (0, Some ErrSyntax)"
  by (simp add: Atoi_def ParseInt_def ParseUint_def isDigit_def digitVal_def maxUint64_def)

lemma exampleDialer_ok:
  "configureDialer (exampleWorld ''587'' ''TLS'' relay) = Inr exampleDialer"
  by (simp add: configureDialer_def exampleWorld_def exampleEnv_def atoi587 NewDialer_def
        exampleDialer_def)

lemma render_example:
  "renderMessage (exampleBody [helloTo [addrB]]) (helloTo [addrB]) =
     ''From: A <a@x.com>'' @ nl @ ''To: B <b@y.com>'' @ nl @ ''Subject: Hello'' @ nl @ nl
     @ ''Content-Type: text/plain'' @ nl @ nl @ ''hi'' @ nl @ nl"
  by (simp add: renderMessage_def renderEnvelope_def renderReplyTo_def renderHeaders_def
        renderContent_def renderAttachments_def formatAddressList_def formatEntry_def
        exampleBody_def helloTo_def zeroPersonalization_def zeroMailSendBody_def
        addrA_def addrB_def plainHi_def)

lemma buildMessage_no_attachments:
  "Attachments mb = [] \<Longrightarrow> buildMessage w mb p = Inr (composeMessage w mb p)"
  by (simp add: buildMessage_def)

subsection \<open>The dialer and the port\<close>

lemma configureDialer_cases:
  "configureDialer w = Inl err \<Longrightarrow> err = InvalidEncrypt (Getenv w ''SMTP_ENCRYPT'')"
  by (auto simp: configureDialer_def Let_def split: if_splits)

lemma configureDialer_port:
  "configureDialer w = Inr d \<Longrightarrow> Port d = fst (Atoi (Getenv w ''SMTP_PORT''))"
  by (auto simp: configureDialer_def Let_def NewDialer_def split: if_splits)

lemma configureDialer_invalid:
  "Getenv w ''SMTP_ENCRYPT'' \<notin> {''SSL'', ''TLS'', ''PLAIN''} \<Longrightarrow>
   configureDialer w = Inl (InvalidEncrypt (Getenv w ''SMTP_ENCRYPT''))"
  by (simp add: configureDialer_def Let_def)

lemma sendEmails_all_delivered:
  "configureDialer w = Inr d \<Longrightarrow>
   (\<forall>j < length (Personalizations mb).
      \<exists>m. buildMessage w mb (Personalizations mb ! j) = Inr m \<and> Relay w j d m = Delivered) \<Longrightarrow>
   fst (sendEmails w mb) = None"
  using sendLoop_all_delivered [of "Personalizations mb" w mb 0 d]
  by (simp add: sendEmails_def)

lemma parseUintLoop_error_value:
  "(snd (parseUintLoop n s) = Some ErrSyntax \<longrightarrow> fst (parseUintLoop n s) = 0)
   \<and> (snd (parseUintLoop n s) = Some ErrRange \<longrightarrow> fst (parseUintLoop n s) = maxUint64)"
  by (induction n s rule: parseUintLoop.induct) auto

lemma Atoi_syntax_zero:
  "snd (Atoi s) = Some ErrSyntax \<Longrightarrow> fst (Atoi s) = 0"
  by (auto simp: Atoi_def ParseInt_def Let_def split: if_splits prod.splits)

lemma Atoi_range_bound:
  "snd (Atoi s) = Some ErrRange \<Longrightarrow>
   fst (Atoi s) = 9223372036854775807 \<or> fst (Atoi s) = - 9223372036854775808"
  by (auto simp: Atoi_def ParseInt_def Let_def split: if_splits prod.splits)

subsection \<open>Only the dialer depends on the environment\<close>

lemma SetHeader_Getenv:
  "SetHeader (w\<lparr>Getenv := g\<rparr>) field vs = SetHeader w field vs"
  by (rule ext) (simp add: SetHeader_def)

lemma composeMessage_Getenv:
  "composeMessage (w\<lparr>Getenv := g\<rparr>) mb p = composeMessage w mb p"
  by (simp add: composeMessage_def setAddresses_def setReplyTo_def SetHeader_Getenv
        cong: option.case_cong)

lemma attachAll_Getenv:
  "attachAll (w\<lparr>Getenv := g\<rparr>) atts m = attachAll w atts m"
  by (induction atts arbitrary: m) (auto split: sum.splits)

lemma sendLoop_Getenv:
  "sendLoop (w\<lparr>Getenv := g\<rparr>) d mb i ps = sendLoop w d mb i ps"
  by (induction ps arbitrary: i)
    (simp_all add: buildMessage_def composeMessage_Getenv attachAll_Getenv DialAndSend_def
       split: sum.splits option.splits)

lemma configureDialer_same_port:
  "fst (Atoi s') = fst (Atoi (Getenv w ''SMTP_PORT'')) \<Longrightarrow>
   configureDialer (w\<lparr>Getenv := (Getenv w)(''SMTP_PORT'' := s')\<rparr>) = configureDialer w"
  by (simp add: configureDialer_def)

lemma sendEmails_same_port:
  "fst (Atoi s') = fst (Atoi (Getenv w ''SMTP_PORT'')) \<Longrightarrow>
   sendEmails (w\<lparr>Getenv := (Getenv w)(''SMTP_PORT'' := s')\<rparr>) mb = sendEmails w mb"
  by (simp add: sendEmails_def configureDialer_same_port sendLoop_Getenv split: sum.splits)

subsection \<open>Headers and parts of the assembled message\<close>

text \<open>
  After all the setters have run, a field set in a loop holds the value of the last call.
\<close>

lemma header_composeMessage_replyTo:
  "''Reply-To'' \<notin> fst ` set (Headers p) \<Longrightarrow>
   header (composeMessage w mb p) ''Reply-To'' =
     (case ReplyTo p of
        Some r \<Rightarrow> Some [EncodeString w (FormatAddress w (Email r) (Name r))]
      | None \<Rightarrow>
          (case ReplyTo_mb mb of
             Some r \<Rightarrow> Some [EncodeString w (FormatAddress w (Email r) (Name r))]
           | None \<Rightarrow> None))"
  by (simp add: composeMessage_def Let_def header_bodies header_custom setReplyTo_def
        header_SetHeader header_setAddresses NewMessage_def split: option.splits)

lemma header_composeMessage_to:
  "''To'' \<notin> fst ` set (Headers p) \<Longrightarrow> To p \<noteq> [] \<Longrightarrow>
   header (composeMessage w mb p) ''To'' =
     Some [EncodeString w (FormatAddress w (Email (last (To p))) (Name (last (To p))))]"
  by (simp add: composeMessage_def Let_def header_bodies header_custom setReplyTo_def
        header_SetHeader header_setAddresses NewMessage_def split: option.splits)

lemma parts_setAddresses: "parts (setAddresses w field addrs m) = parts m"
  unfolding setAddresses_def
  by (induction addrs arbitrary: m) (auto simp: parts_SetHeader)

lemma parts_custom: "parts (fold (\<lambda>(k, v). SetHeader w k [v]) hs m) = parts m"
  by (induction hs arbitrary: m) (auto simp: parts_SetHeader)

lemma parts_composeMessage:
  "parts (composeMessage w mb p) =
     (if Content_mb mb = [] then []
      else [(Type (last (Content_mb mb)), Value (last (Content_mb mb)))])"
  by (simp add: composeMessage_def Let_def parts_bodies parts_custom setReplyTo_def
        parts_SetHeader parts_setAddresses NewMessage_def split: option.splits)

subsection \<open>Fields of the examples\<close>

lemma example_fields:
  "Personalizations (exampleBody ps) = ps"
  "Attachments (exampleBody ps) = []"
  "Content_mb (exampleBody ps) = [plainHi]"
  "ReplyTo_mb (exampleBody ps) = None"
  by (simp_all add: exampleBody_def zeroMailSendBody_def)

lemma example_relay:
  "Relay (exampleWorld port encrypt relay) i d m = relay i"
  by (simp add: exampleWorld_def)

lemma atoi_range: "Atoi ''99999999999999999999'' = (9223372036854775807, Some ErrRange)"
  by (simp add: Atoi_def ParseInt_def ParseUint_def isDigit_def digitVal_def maxUint64_def)

lemma atoi_zero: "Atoi ''0'' = (0, None)"
  by (simp add: Atoi_def ParseInt_def ParseUint_def isDigit_def digitVal_def maxUint64_def)

lemma example_env:
  "Getenv (exampleWorld port encrypt relay) ''SMTP_PORT'' = port"
  "Getenv (exampleWorld port encrypt relay) ''SMTP_ENCRYPT'' = encrypt"
  by (simp_all add: exampleWorld_def exampleEnv_def)

lemma example_format:
  "FormatAddress (exampleWorld port encrypt relay) = exampleFormat"
  "EncodeString (exampleWorld port encrypt relay) s = s"
  by (simp_all add: exampleWorld_def)

lemma helloTo_fields:
  "To (helloTo addrs) = addrs"
  "Headers (helloTo addrs) = []"
  "ReplyTo (helloTo addrs) = None"
  by (simp_all add: helloTo_def zeroPersonalization_def)

section \<open>The claims\<close>

subsection \<open>C1\<close>

text \<open>
  Claim C1. A POST request whose body decodes and whose \<^verbatim>\<open>dry-run\<close> query
  parameter is the string \<^verbatim>\<open>true\<close> is answered with status 200 and the JSON
  object whose \<^verbatim>\<open>data\<close> array holds the rendered text of every personalization,
  in the order of the personalizations. The handler produces no network event: the
  SMTP sender is never invoked, whatever the environment and the relay are.
\<close>

theorem dry_run_renders_without_smtp:
  assumes "Method r = ''POST''"
    and "Body r = Some mailBody"
    and "QueryGet (Query r) ''dry-run'' = ''true''"
  shows "handleSendEmail w r =
           (\<lparr>Status = 200,
             RespBody = JsonData (map (renderMessage mailBody) (Personalizations mailBody))\<rparr>, [])"
  using assms by (simp add: handleSendEmail_def renderAll_map)

text \<open>
  Claim C1, at the example scenario of the specification, with an unsupported
  encryption mode and a relay that refuses every connection: the dry run still
  answers 200 with the expected text and no event.
\<close>

theorem dry_run_renders_without_smtp_witness:
  "handleSendEmail (exampleWorld ''587'' ''bogus'' relayDown)
     (postRequest [(''dry-run'', ''true'')] (exampleBody [helloTo [addrB]])) =
   (\<lparr>Status = 200,
     RespBody = JsonData
       [''From: A <a@x.com>'' @ nl @ ''To: B <b@y.com>'' @ nl @ ''Subject: Hello'' @ nl @ nl
        @ ''Content-Type: text/plain'' @ nl @ nl @ ''hi'' @ nl @ nl]\<rparr>, [])"
proof -
  let ?r = "postRequest [(''dry-run'', ''true'')] (exampleBody [helloTo [addrB]])"
  have m: "Method ?r = ''POST''" by (simp add: postRequest_def)
  have b: "Body ?r = Some (exampleBody [helloTo [addrB]])" by (simp add: postRequest_def)
  have q: "QueryGet (Query ?r) ''dry-run'' = ''true''"
    by (simp add: postRequest_def QueryGet_def)
  have ps: "Personalizations (exampleBody [helloTo [addrB]]) = [helloTo [addrB]]"
    by (simp add: exampleBody_def zeroMailSendBody_def)
  show ?thesis
    using dry_run_renders_without_smtp [OF m b q] render_example ps by simp
qed

subsection \<open>C2\<close>

text \<open>
  Claim C2. Let the dialer be configured and let the personalization at index
  \<open>k\<close> (counted from 0; the claim counts it as \<open>k + 1\<close>) be the first whose
  \<^verbatim>\<open>DialAndSend\<close> fails, every personalization before it having been delivered.
  Then \<^verbatim>\<open>sendEmails\<close> returns that failure, and its events are exactly a dial
  and a send for each earlier personalization, in order, followed by the events of
  the failed call. Nothing follows the failed call: no later personalization is
  attempted and nothing is undone.
\<close>

theorem send_failure_aborts:
  assumes "configureDialer w = Inr d"
    and "k < length (Personalizations mb)"
    and "\<forall>j \<le> k. buildMessage w mb (Personalizations mb ! j) = Inr (msg j)"
    and "\<forall>j < k. Relay w j d (msg j) = Delivered"
    and "relayError (Relay w k d (msg k)) = Some e"
  shows "sendEmails w mb =
           (Some (SendFailure e),
            concat (map (\<lambda>j. [Dial d, Send (msg j)]) [0 ..< k])
            @ relayEvents (Relay w k d (msg k)) d (msg k))"
proof -
  have "sendLoop w d mb 0 (Personalizations mb) =
          (Some (SendFailure e),
           concat (map (\<lambda>j. [Dial d, Send (msg j)]) [0 ..< 0 + k])
           @ relayEvents (Relay w (0 + k) d (msg (0 + k))) d (msg (0 + k)))"
    by (rule sendLoop_fail) (use assms in simp_all)
  with assms(1) show ?thesis
    by (simp add: sendEmails_def)
qed

text \<open>
  Claim C2 with three personalizations, the relay rejecting the second message:
  the first is delivered, the second attempted, the third never reached.
\<close>

theorem send_failure_aborts_witness:
  "sendEmails (exampleWorld ''587'' ''TLS'' secondRejected)
     (exampleBody [helloTo [addrA], helloTo [addrB], helloTo [addrC]]) =
   (Some (SendFailure ''550 rejected''),
    [Dial exampleDialer,
     Send (composeMessage (exampleWorld ''587'' ''TLS'' secondRejected)
             (exampleBody [helloTo [addrA], helloTo [addrB], helloTo [addrC]]) (helloTo [addrA])),
     Dial exampleDialer,
     Send (composeMessage (exampleWorld ''587'' ''TLS'' secondRejected)
             (exampleBody [helloTo [addrA], helloTo [addrB], helloTo [addrC]]) (helloTo [addrB]))])"
proof -
  let ?w = "exampleWorld ''587'' ''TLS'' secondRejected"
  let ?mb = "exampleBody [helloTo [addrA], helloTo [addrB], helloTo [addrC]]"
  let ?msg = "\<lambda>j. composeMessage ?w ?mb (Personalizations ?mb ! j)"
  have ps: "Personalizations ?mb = [helloTo [addrA], helloTo [addrB], helloTo [addrC]]"
    by (simp add: exampleBody_def zeroMailSendBody_def)
  have att: "Attachments ?mb = []"
    by (simp add: exampleBody_def zeroMailSendBody_def)
  have d: "configureDialer ?w = Inr exampleDialer" by (rule exampleDialer_ok)
  have k: "(1::nat) < length (Personalizations ?mb)" by (simp add: ps)
  have b: "\<forall>j \<le> 1. buildMessage ?w ?mb (Personalizations ?mb ! j) = Inr (?msg j)"
    by (simp add: buildMessage_no_attachments [OF att])
  have r: "\<forall>j < 1. Relay ?w j exampleDialer (?msg j) = Delivered"
    by (simp add: exampleWorld_def)
  have f: "relayError (Relay ?w 1 exampleDialer (?msg 1)) = Some ''550 rejected''"
    by (simp add: exampleWorld_def)
  show ?thesis
    using send_failure_aborts [OF d k b r f] by (simp add: ps exampleWorld_def)
qed

subsection \<open>C3\<close>

text \<open>
  Claim C3. A method other than POST yields 405; a POST whose body does not
  decode yields 400; a POST outside dry-run for which \<^verbatim>\<open>sendEmails\<close> returns an
  error yields 500 with the text of the error as the plain body; a POST outside
  dry-run for which it returns nil yields 202 with an empty body; and it returns
  nil when the dialer is configured and every personalization is built and
  delivered.
\<close>

theorem handler_status_codes:
  "(Method r \<noteq> ''POST'' \<longrightarrow> handleSendEmail w r = (httpError ''Method not allowed'' 405, []))
   \<and> (Method r = ''POST'' \<and> Body r = None \<longrightarrow>
        handleSendEmail w r = (httpError ''Invalid request body'' 400, []))
   \<and> (Method r = ''POST'' \<and> Body r = Some mb \<and> QueryGet (Query r) ''dry-run'' \<noteq> ''true''
        \<and> fst (sendEmails w mb) = Some err \<longrightarrow>
        fst (handleSendEmail w r) = \<lparr>Status = 500, RespBody = Plain (Error err)\<rparr>)
   \<and> (Method r = ''POST'' \<and> Body r = Some mb \<and> QueryGet (Query r) ''dry-run'' \<noteq> ''true''
        \<and> fst (sendEmails w mb) = None \<longrightarrow>
        fst (handleSendEmail w r) = \<lparr>Status = 202, RespBody = Empty\<rparr>)
   \<and> (configureDialer w = Inr d
        \<and> (\<forall>j < length (Personalizations mb).
              \<exists>m. buildMessage w mb (Personalizations mb ! j) = Inr m \<and> Relay w j d m = Delivered)
        \<longrightarrow> fst (sendEmails w mb) = None)"
proof (intro conjI impI)
  assume "Method r \<noteq> ''POST''"
  then show "handleSendEmail w r = (httpError ''Method not allowed'' 405, [])"
    by (simp add: handleSendEmail_def)
next
  assume "Method r = ''POST'' \<and> Body r = None"
  then show "handleSendEmail w r = (httpError ''Invalid request body'' 400, [])"
    by (simp add: handleSendEmail_def)
next
  assume "Method r = ''POST'' \<and> Body r = Some mb \<and> QueryGet (Query r) ''dry-run'' \<noteq> ''true''
            \<and> fst (sendEmails w mb) = Some err"
  then show "fst (handleSendEmail w r) = \<lparr>Status = 500, RespBody = Plain (Error err)\<rparr>"
    by (simp add: handleSendEmail_def httpError_def)
next
  assume "Method r = ''POST'' \<and> Body r = Some mb \<and> QueryGet (Query r) ''dry-run'' \<noteq> ''true''
            \<and> fst (sendEmails w mb) = None"
  then show "fst (handleSendEmail w r) = \<lparr>Status = 202, RespBody = Empty\<rparr>"
    by (simp add: handleSendEmail_def)
next
  assume "configureDialer w = Inr d
        \<and> (\<forall>j < length (Personalizations mb).
              \<exists>m. buildMessage w mb (Personalizations mb ! j) = Inr m \<and> Relay w j d m = Delivered)"
  then show "fst (sendEmails w mb) = None"
    using sendEmails_all_delivered by blast
qed

text \<open>
  Claim C3 on four requests: a GET, a POST without a decodable body, a POST
  against a relay that refuses the connection, and a POST that is delivered.
\<close>

theorem handler_status_codes_witness:
  "handleSendEmail (exampleWorld ''587'' ''TLS'' alwaysDelivered)
     \<lparr>Method = ''GET'', Query = [], Body = Some (exampleBody [helloTo [addrB]])\<rparr> =
     (httpError ''Method not allowed'' 405, [])
   \<and> handleSendEmail (exampleWorld ''587'' ''TLS'' alwaysDelivered)
       \<lparr>Method = ''POST'', Query = [], Body = None\<rparr> =
       (httpError ''Invalid request body'' 400, [])
   \<and> fst (handleSendEmail (exampleWorld ''587'' ''TLS'' relayDown)
            (postRequest [] (exampleBody [helloTo [addrB]]))) =
       \<lparr>Status = 500, RespBody = Plain ''failed to send email: connection refused''\<rparr>
   \<and> fst (handleSendEmail (exampleWorld ''587'' ''TLS'' alwaysDelivered)
            (postRequest [] (exampleBody [helloTo [addrB]]))) =
       \<lparr>Status = 202, RespBody = Empty\<rparr>"
proof -
  let ?ok = "exampleWorld ''587'' ''TLS'' alwaysDelivered"
  let ?down = "exampleWorld ''587'' ''TLS'' relayDown"
  let ?mb = "exampleBody [helloTo [addrB]]"
  let ?get = "\<lparr>Method = ''GET'', Query = [], Body = Some ?mb\<rparr>"
  let ?nobody = "\<lparr>Method = ''POST'', Query = [], Body = None\<rparr>"
  let ?post = "postRequest [] ?mb"
  have post: "Method ?post = ''POST'' \<and> Body ?post = Some ?mb
                \<and> QueryGet (Query ?post) ''dry-run'' \<noteq> ''true''"
    by (simp add: postRequest_def QueryGet_def)
  have c1: "handleSendEmail ?ok ?get = (httpError ''Method not allowed'' 405, [])"
    using handler_status_codes [of ?get ?ok] by simp
  have c2: "handleSendEmail ?ok ?nobody = (httpError ''Invalid request body'' 400, [])"
    using handler_status_codes [of ?nobody ?ok] by simp
  have err: "fst (sendEmails ?down ?mb) = Some (SendFailure ''connection refused'')"
    by (simp add: sendEmails_def exampleDialer_ok example_fields buildMessage_no_attachments
          DialAndSend_def example_relay)
  have c3: "fst (handleSendEmail ?down ?post) =
              \<lparr>Status = 500, RespBody = Plain ''failed to send email: connection refused''\<rparr>"
    using handler_status_codes [of ?post ?down ?mb "SendFailure ''connection refused''"] post err
    by simp
  have all: "\<forall>j < length (Personalizations ?mb).
               \<exists>m. buildMessage ?ok ?mb (Personalizations ?mb ! j) = Inr m
                 \<and> Relay ?ok j exampleDialer m = Delivered"
    by (simp add: example_fields buildMessage_no_attachments example_relay)
  have nil: "fst (sendEmails ?ok ?mb) = None"
    using handler_status_codes [of ?post ?ok ?mb "SendFailure []" exampleDialer] all exampleDialer_ok
    by blast
  have c4: "fst (handleSendEmail ?ok ?post) = \<lparr>Status = 202, RespBody = Empty\<rparr>"
    using handler_status_codes [of ?post ?ok ?mb] post nil by blast
  show ?thesis
    using c1 c2 c3 c4 by simp
qed

subsection \<open>C4\<close>

text \<open>
  Claim C4 at a request with a plain-text and an HTML content item. The message
  built for the SMTP sender holds a single part, the last content item, because each
  \<^verbatim>\<open>SetBody\<close> call of the loop replaces the body set by the call before; the
  plain-text item is lost. The dry-run rendering of the same request holds both
  items in array order, each under its own \<^verbatim>\<open>Content-Type\<close> line, as the claim
  says.
\<close>

theorem send_path_drops_earlier_content:
  "buildMessage (exampleWorld ''587'' ''TLS'' alwaysDelivered)
     ((exampleBody [helloTo [addrB]])\<lparr>Content_mb := [plainHi, htmlHi]\<rparr>) (helloTo [addrB]) =
     Inr (composeMessage (exampleWorld ''587'' ''TLS'' alwaysDelivered)
            ((exampleBody [helloTo [addrB]])\<lparr>Content_mb := [plainHi, htmlHi]\<rparr>) (helloTo [addrB]))
   \<and> parts (composeMessage (exampleWorld ''587'' ''TLS'' alwaysDelivered)
            ((exampleBody [helloTo [addrB]])\<lparr>Content_mb := [plainHi, htmlHi]\<rparr>) (helloTo [addrB])) =
       [(''text/html'', ''<b>hi</b>'')]
   \<and> renderContent ((exampleBody [helloTo [addrB]])\<lparr>Content_mb := [plainHi, htmlHi]\<rparr>) =
       ''Content-Type: text/plain'' @ nl @ nl @ ''hi'' @ nl @ nl
       @ ''Content-Type: text/html'' @ nl @ nl @ ''<b>hi</b>'' @ nl @ nl"
  by (simp add: buildMessage_def example_fields parts_composeMessage renderContent_def
        plainHi_def htmlHi_def)

subsection \<open>C5\<close>

text \<open>
  Claim C5 fails as stated: a request with two personalizations that completes
  successfully opens two connections, not one.
\<close>

theorem two_personalizations_two_dials_counterexample:
  "fst (sendEmails (exampleWorld ''587'' ''TLS'' alwaysDelivered)
          (exampleBody [helloTo [addrA], helloTo [addrB]])) = None
   \<and> length (filter isDial
        (snd (sendEmails (exampleWorld ''587'' ''TLS'' alwaysDelivered)
                (exampleBody [helloTo [addrA], helloTo [addrB]])))) = 2"
  by (simp add: sendEmails_def exampleDialer_ok example_fields buildMessage_no_attachments
        DialAndSend_def example_relay)

text \<open>
  Claim C5 as amended. When \<^verbatim>\<open>sendEmails\<close> returns nil, the number of dials
  equals the number of personalizations: every personalization opens a connection of
  its own through its \<^verbatim>\<open>DialAndSend\<close> call.
\<close>

theorem one_dial_per_personalization:
  assumes "fst (sendEmails w mb) = None"
  shows "length (filter isDial (snd (sendEmails w mb))) = length (Personalizations mb)"
proof (cases "configureDialer w")
  case (Inl err)
  with assms show ?thesis by (simp add: sendEmails_def)
next
  case (Inr d)
  with assms have "fst (sendLoop w d mb 0 (Personalizations mb)) = None"
    by (simp add: sendEmails_def)
  then have "length (filter isDial (snd (sendLoop w d mb 0 (Personalizations mb)))) =
               length (Personalizations mb)"
    by (rule sendLoop_dials)
  with Inr show ?thesis by (simp add: sendEmails_def)
qed

text \<open>
  Claim C5 as amended, with three personalizations: three dials.
\<close>

theorem one_dial_per_personalization_witness:
  "length (filter isDial
     (snd (sendEmails (exampleWorld ''587'' ''TLS'' alwaysDelivered)
             (exampleBody [helloTo [addrA], helloTo [addrB], helloTo [addrC]])))) = 3"
proof -
  let ?w = "exampleWorld ''587'' ''TLS'' alwaysDelivered"
  let ?mb = "exampleBody [helloTo [addrA], helloTo [addrB], helloTo [addrC]]"
  have nil: "fst (sendEmails ?w ?mb) = None"
    by (simp add: sendEmails_def exampleDialer_ok example_fields buildMessage_no_attachments
          DialAndSend_def example_relay)
  show ?thesis
    using one_dial_per_personalization [OF nil] by (simp add: example_fields)
qed

subsection \<open>C6\<close>

text \<open>
  Claim C6 at a personalization with the two recipients A and B. In the message
  built for the SMTP sender the \<^verbatim>\<open>To\<close> header holds one entry only, that of B,
  because each \<^verbatim>\<open>SetHeader\<close> call of the loop replaces the value set by the call
  before; A is lost. The dry-run rendering of the same list holds both entries, as
  the claim says.
\<close>

theorem send_path_keeps_last_recipient:
  "buildMessage (exampleWorld ''587'' ''TLS'' alwaysDelivered)
     (exampleBody [helloTo [addrA, addrB]]) (helloTo [addrA, addrB]) =
     Inr (composeMessage (exampleWorld ''587'' ''TLS'' alwaysDelivered)
            (exampleBody [helloTo [addrA, addrB]]) (helloTo [addrA, addrB]))
   \<and> header (composeMessage (exampleWorld ''587'' ''TLS'' alwaysDelivered)
            (exampleBody [helloTo [addrA, addrB]]) (helloTo [addrA, addrB])) ''To'' =
       Some [[CHR 0x22] @ ''B'' @ [CHR 0x22] @ '' <b@y.com>'']
   \<and> formatAddressList (To (helloTo [addrA, addrB])) = ''A <a@x.com>, B <b@y.com>''"
  by (simp add: buildMessage_def example_fields header_composeMessage_to helloTo_fields
        example_format exampleFormat_def formatAddressList_def formatEntry_def addrA_def addrB_def)

subsection \<open>C7\<close>

text \<open>
  Claim C7 fails as stated when the personalization's own headers carry the key
  \<^verbatim>\<open>Reply-To\<close>. They are applied after the reply-to rule, so in the send path the
  custom value replaces the personalization's address, and with neither reply-to
  set a \<^verbatim>\<open>Reply-To\<close> header still appears, in the sent message and in the
  rendering.
\<close>

theorem custom_reply_to_header_counterexample:
  "header (composeMessage (exampleWorld ''587'' ''TLS'' alwaysDelivered) (exampleBody [])
             (customReplyTo (Some addrC))) ''Reply-To'' = Some [''custom@h.com'']
   \<and> header (composeMessage (exampleWorld ''587'' ''TLS'' alwaysDelivered) (exampleBody [])
             (customReplyTo None)) ''Reply-To'' = Some [''custom@h.com'']
   \<and> renderMessage (exampleBody []) (customReplyTo None) =
       ''From: A <a@x.com>'' @ nl @ ''To: B <b@y.com>'' @ nl @ ''Subject: Hello'' @ nl
       @ ''Reply-To: custom@h.com'' @ nl @ nl
       @ ''Content-Type: text/plain'' @ nl @ nl @ ''hi'' @ nl @ nl"
proof -
  let ?w = "exampleWorld ''587'' ''TLS'' alwaysDelivered"
  have h: "Headers (customReplyTo r) = [(''Reply-To'', ''custom@h.com'')]" for r
    by (simp add: customReplyTo_def zeroPersonalization_def)
  have c: "header (composeMessage ?w (exampleBody []) (customReplyTo r)) ''Reply-To'' =
             Some [''custom@h.com'']" for r
    by (simp add: composeMessage_def Let_def header_bodies h header_SetHeader example_format)
  have r: "renderMessage (exampleBody []) (customReplyTo None) =
       ''From: A <a@x.com>'' @ nl @ ''To: B <b@y.com>'' @ nl @ ''Subject: Hello'' @ nl
       @ ''Reply-To: custom@h.com'' @ nl @ nl
       @ ''Content-Type: text/plain'' @ nl @ nl @ ''hi'' @ nl @ nl"
    by (simp add: renderMessage_def renderEnvelope_def renderReplyTo_def renderHeaders_def
        renderContent_def renderAttachments_def formatAddressList_def formatEntry_def
        exampleBody_def customReplyTo_def zeroPersonalization_def zeroMailSendBody_def
        addrA_def addrB_def plainHi_def)
  show ?thesis using c r by simp
qed

text \<open>
  Claim C7 as amended. For a personalization whose own headers do not carry the
  key \<^verbatim>\<open>Reply-To\<close>: when the personalization's reply-to is set, the
  \<^verbatim>\<open>Reply-To\<close> header of the sent message is that address, formatted, and the
  rendering has its line right after the subject, whatever the request-level value
  is; when only the request-level reply-to is set, both show that address; when
  neither is set, the sent message has no \<^verbatim>\<open>Reply-To\<close> header and the
  rendering no such line.
\<close>

theorem reply_to_precedence:
  assumes "''Reply-To'' \<notin> fst ` set (Headers p)"
    and "buildMessage w mb p = Inr m"
  shows "(\<forall>r. ReplyTo p = Some r \<longrightarrow>
            header m ''Reply-To'' = Some [EncodeString w (FormatAddress w (Email r) (Name r))]
            \<and> renderMessage mb p =
                renderEnvelope mb p @ ''Reply-To: '' @ Name r @ '' <'' @ Email r @ ''>'' @ nl
                @ renderHeaders p @ nl @ renderContent mb @ renderAttachments mb)
       \<and> (\<forall>r. ReplyTo p = None \<and> ReplyTo_mb mb = Some r \<longrightarrow>
            header m ''Reply-To'' = Some [EncodeString w (FormatAddress w (Email r) (Name r))]
            \<and> renderMessage mb p =
                renderEnvelope mb p @ ''Reply-To: '' @ Name r @ '' <'' @ Email r @ ''>'' @ nl
                @ renderHeaders p @ nl @ renderContent mb @ renderAttachments mb)
       \<and> (ReplyTo p = None \<and> ReplyTo_mb mb = None \<longrightarrow>
            header m ''Reply-To'' = None
            \<and> renderMessage mb p =
                renderEnvelope mb p @ renderHeaders p @ nl @ renderContent mb
                @ renderAttachments mb)"
proof -
  have h: "header m = header (composeMessage w mb p)"
    using assms(2) attachAll_keeps by (simp add: buildMessage_def)
  show ?thesis
    using header_composeMessage_replyTo [OF assms(1), of w mb]
    by (simp add: h renderMessage_def renderReplyTo_def)
qed

text \<open>
  Claim C7 as amended, in its three cases: both values set, only the request-level
  value set, neither set.
\<close>

theorem reply_to_precedence_witness:
  "header (composeMessage (exampleWorld ''587'' ''TLS'' alwaysDelivered)
             ((exampleBody [])\<lparr>ReplyTo_mb := Some addrA\<rparr>)
             ((helloTo [addrB])\<lparr>ReplyTo := Some addrC\<rparr>)) ''Reply-To'' =
     Some [[CHR 0x22] @ ''C'' @ [CHR 0x22] @ '' <c@z.com>'']
   \<and> header (composeMessage (exampleWorld ''587'' ''TLS'' alwaysDelivered)
             ((exampleBody [])\<lparr>ReplyTo_mb := Some addrA\<rparr>) (helloTo [addrB])) ''Reply-To'' =
     Some [[CHR 0x22] @ ''A'' @ [CHR 0x22] @ '' <a@x.com>'']
   \<and> header (composeMessage (exampleWorld ''587'' ''TLS'' alwaysDelivered)
             (exampleBody []) (helloTo [addrB])) ''Reply-To'' = None"
proof -
  let ?w = "exampleWorld ''587'' ''TLS'' alwaysDelivered"
  let ?mbA = "(exampleBody [])\<lparr>ReplyTo_mb := Some addrA\<rparr>"
  let ?mb = "exampleBody []"
  let ?pC = "(helloTo [addrB])\<lparr>ReplyTo := Some addrC\<rparr>"
  let ?p = "helloTo [addrB]"
  have k1: "''Reply-To'' \<notin> fst ` set (Headers ?pC)" by (simp add: helloTo_fields)
  have k2: "''Reply-To'' \<notin> fst ` set (Headers ?p)" by (simp add: helloTo_fields)
  have b1: "buildMessage ?w ?mbA ?pC = Inr (composeMessage ?w ?mbA ?pC)"
    by (simp add: buildMessage_def example_fields)
  have b2: "buildMessage ?w ?mbA ?p = Inr (composeMessage ?w ?mbA ?p)"
    by (simp add: buildMessage_def example_fields)
  have b3: "buildMessage ?w ?mb ?p = Inr (composeMessage ?w ?mb ?p)"
    by (simp add: buildMessage_def example_fields)
  have c1: "header (composeMessage ?w ?mbA ?pC) ''Reply-To'' =
              Some [EncodeString ?w (FormatAddress ?w (Email addrC) (Name addrC))]"
    using reply_to_precedence [OF k1 b1] by simp
  have c2: "header (composeMessage ?w ?mbA ?p) ''Reply-To'' =
              Some [EncodeString ?w (FormatAddress ?w (Email addrA) (Name addrA))]"
    using reply_to_precedence [OF k2 b2] by (simp add: helloTo_fields)
  have c3: "header (composeMessage ?w ?mb ?p) ''Reply-To'' = None"
    using reply_to_precedence [OF k2 b3] by (simp add: helloTo_fields example_fields)
  show ?thesis
    using c1 c2 c3 by (simp add: example_format exampleFormat_def addrA_def addrC_def)
qed

subsection \<open>C8\<close>

text \<open>
  Claim C8 fails as stated for a request without personalizations: the
  attachments are decoded inside the loop over the personalizations, so the
  undecodable attachment is never looked at and the handler answers 202.
\<close>

theorem bad_attachment_without_personalization_counterexample:
  "DecodeString (exampleWorld ''587'' ''TLS'' alwaysDelivered) (Content badAttachment) =
     Inl ''illegal base64 data at input byte 0''
   \<and> handleSendEmail (exampleWorld ''587'' ''TLS'' alwaysDelivered)
       (postRequest [] ((exampleBody [])\<lparr>Attachments := [badAttachment]\<rparr>)) =
       (\<lparr>Status = 202, RespBody = Empty\<rparr>, [])"
proof -
  let ?w = "exampleWorld ''587'' ''TLS'' alwaysDelivered"
  let ?mb = "(exampleBody [])\<lparr>Attachments := [badAttachment]\<rparr>"
  have dec: "DecodeString ?w (Content badAttachment) = Inl ''illegal base64 data at input byte 0''"
    by (simp add: exampleWorld_def exampleDecode_def badAttachment_def)
  have send: "sendEmails ?w ?mb = (None, [])"
    by (simp add: sendEmails_def exampleDialer_ok example_fields)
  have "handleSendEmail ?w (postRequest [] ?mb) = (\<lparr>Status = 202, RespBody = Empty\<rparr>, [])"
    by (simp add: handleSendEmail_def postRequest_def QueryGet_def send)
  with dec show ?thesis by simp
qed

text \<open>
  Claim C8 as amended. For a request with at least one personalization, an
  attachment whose content does not decode makes \<^verbatim>\<open>sendEmails\<close> return an error
  with no event at all: the failure is met while the first message is assembled, so
  no personalization is dialled or sent, and the handler answers 500 with the text
  of the error. The error is the decode failure, or the configuration error when
  the encryption mode is unsupported as well.
\<close>

theorem bad_attachment_aborts:
  assumes "Personalizations mb \<noteq> []"
    and "a \<in> set (Attachments mb)"
    and "DecodeString w (Content a) = Inl e"
  shows "\<exists>err. sendEmails w mb = (Some err, [])
           \<and> ((\<exists>e'. err = DecodeFailed e') \<or> err = InvalidEncrypt (Getenv w ''SMTP_ENCRYPT''))
           \<and> (Method r = ''POST'' \<and> Body r = Some mb \<and> QueryGet (Query r) ''dry-run'' \<noteq> ''true'' \<longrightarrow>
                handleSendEmail w r = (\<lparr>Status = 500, RespBody = Plain (Error err)\<rparr>, []))"
proof (cases "configureDialer w")
  case (Inl err)
  then have "sendEmails w mb = (Some err, [])"
    by (simp add: sendEmails_def)
  moreover have "err = InvalidEncrypt (Getenv w ''SMTP_ENCRYPT'')"
    using Inl by (rule configureDialer_cases)
  ultimately show ?thesis
    by (simp add: handleSendEmail_def httpError_def)
next
  case (Inr d)
  obtain p ps where ps: "Personalizations mb = p # ps"
    using assms(1) by (cases "Personalizations mb") auto
  obtain e' where "attachAll w (Attachments mb) (composeMessage w mb p) = Inl (DecodeFailed e')"
    using attachAll_fails [OF assms(2) assms(3)] by blast
  then have "sendEmails w mb = (Some (DecodeFailed e'), [])"
    using Inr ps by (simp add: sendEmails_def buildMessage_def)
  then show ?thesis
    by (simp add: handleSendEmail_def httpError_def)
qed

text \<open>
  Claim C8 as amended, with two personalizations and one undecodable attachment.
\<close>

theorem bad_attachment_aborts_witness:
  "fst (sendEmails (exampleWorld ''587'' ''TLS'' alwaysDelivered)
          ((exampleBody [helloTo [addrA], helloTo [addrB]])\<lparr>Attachments := [badAttachment]\<rparr>)) \<noteq> None
   \<and> snd (sendEmails (exampleWorld ''587'' ''TLS'' alwaysDelivered)
          ((exampleBody [helloTo [addrA], helloTo [addrB]])\<lparr>Attachments := [badAttachment]\<rparr>)) = []
   \<and> Status (fst (handleSendEmail (exampleWorld ''587'' ''TLS'' alwaysDelivered)
          (postRequest [] ((exampleBody [helloTo [addrA], helloTo [addrB]])\<lparr>Attachments := [badAttachment]\<rparr>)))) = 500"
proof -
  let ?w = "exampleWorld ''587'' ''TLS'' alwaysDelivered"
  let ?mb = "(exampleBody [helloTo [addrA], helloTo [addrB]])\<lparr>Attachments := [badAttachment]\<rparr>"
  let ?r = "postRequest [] ?mb"
  have ps: "Personalizations ?mb \<noteq> []" by (simp add: example_fields)
  have a: "badAttachment \<in> set (Attachments ?mb)" by simp
  have dec: "DecodeString ?w (Content badAttachment) = Inl ''illegal base64 data at input byte 0''"
    by (simp add: exampleWorld_def exampleDecode_def badAttachment_def)
  have post: "Method ?r = ''POST'' \<and> Body ?r = Some ?mb \<and> QueryGet (Query ?r) ''dry-run'' \<noteq> ''true''"
    by (simp add: postRequest_def QueryGet_def)
  from bad_attachment_aborts [OF ps a dec, of ?r] post
  obtain err where "sendEmails ?w ?mb = (Some err, [])"
    and "handleSendEmail ?w ?r = (\<lparr>Status = 500, RespBody = Plain (Error err)\<rparr>, [])"
    by blast
  then show ?thesis by simp
qed

subsection \<open>C9\<close>

text \<open>
  Claim C9. When \<^verbatim>\<open>SMTP_ENCRYPT\<close> is none of SSL, TLS and PLAIN,
  \<^verbatim>\<open>sendEmails\<close> returns the configuration error with no event (no dial, no
  send), and the handler answers a POST outside dry-run with 500 and the text of
  that error.
\<close>

theorem invalid_encrypt_rejected:
  assumes "Getenv w ''SMTP_ENCRYPT'' \<notin> {''SSL'', ''TLS'', ''PLAIN''}"
  shows "sendEmails w mb = (Some (InvalidEncrypt (Getenv w ''SMTP_ENCRYPT'')), [])
         \<and> (Method r = ''POST'' \<and> Body r = Some mb \<and> QueryGet (Query r) ''dry-run'' \<noteq> ''true'' \<longrightarrow>
              handleSendEmail w r =
                (\<lparr>Status = 500,
                  RespBody = Plain (''invalid SMTP_ENCRYPT value: '' @ Getenv w ''SMTP_ENCRYPT'')\<rparr>, []))"
proof -
  have s: "sendEmails w mb = (Some (InvalidEncrypt (Getenv w ''SMTP_ENCRYPT'')), [])"
    using configureDialer_invalid [OF assms] by (simp add: sendEmails_def)
  then show ?thesis
    by (simp add: handleSendEmail_def httpError_def)
qed

text \<open>
  Claim C9 with \<^verbatim>\<open>SMTP_ENCRYPT=STARTTLS\<close>.
\<close>

theorem invalid_encrypt_rejected_witness:
  "sendEmails (exampleWorld ''587'' ''STARTTLS'' alwaysDelivered) (exampleBody [helloTo [addrB]]) =
     (Some (InvalidEncrypt ''STARTTLS''), [])
   \<and> handleSendEmail (exampleWorld ''587'' ''STARTTLS'' alwaysDelivered)
       (postRequest [] (exampleBody [helloTo [addrB]])) =
       (\<lparr>Status = 500, RespBody = Plain ''invalid SMTP_ENCRYPT value: STARTTLS''\<rparr>, [])"
proof -
  let ?w = "exampleWorld ''587'' ''STARTTLS'' alwaysDelivered"
  let ?mb = "exampleBody [helloTo [addrB]]"
  have env: "Getenv ?w ''SMTP_ENCRYPT'' = ''STARTTLS''"
    by (simp add: exampleWorld_def exampleEnv_def)
  have bad: "Getenv ?w ''SMTP_ENCRYPT'' \<notin> {''SSL'', ''TLS'', ''PLAIN''}"
    by (simp add: env)
  show ?thesis
    using invalid_encrypt_rejected [OF bad, of ?mb "postRequest [] ?mb"]
    by (simp add: env postRequest_def QueryGet_def)
qed

subsection \<open>C10\<close>

text \<open>
  Claim C10 fails as stated: for a port string that is not an integer but starts
  with more digits than an \<^verbatim>\<open>int\<close> holds, \<^verbatim>\<open>Atoi\<close> reports a range
  error together with the largest \<^verbatim>\<open>int\<close>, and the dialer gets that port, not 0.
\<close>

theorem port_overflow_counterexample:
  "snd (Atoi ''99999999999999999999x'') = Some ErrRange
   \<and> configureDialer (exampleWorld ''99999999999999999999x'' ''TLS'' alwaysDelivered) =
       Inr (exampleDialer\<lparr>Port := 9223372036854775807\<rparr>)"
  by (simp add: configureDialer_def exampleWorld_def exampleEnv_def atoi_big NewDialer_def
        exampleDialer_def)

text \<open>
  Claim C10 as amended. The port of the dialer is the value that \<^verbatim>\<open>Atoi\<close>
  returns, its error being discarded: 0 after a syntax error, the largest or the
  smallest \<^verbatim>\<open>int\<close> after a range error. The only error of the configuration
  step is the one about \<^verbatim>\<open>SMTP_ENCRYPT\<close>, and \<^verbatim>\<open>sendEmails\<close> behaves
  exactly as it does for any other port string with the same value, so a malformed
  port is never reported as such and can only show later, when dialling.
\<close>

theorem port_parse_error_discarded:
  "(\<forall>d. configureDialer w = Inr d \<longrightarrow> Port d = fst (Atoi (Getenv w ''SMTP_PORT'')))
   \<and> (\<forall>err. configureDialer w = Inl err \<longrightarrow> err = InvalidEncrypt (Getenv w ''SMTP_ENCRYPT''))
   \<and> (snd (Atoi (Getenv w ''SMTP_PORT'')) = Some ErrSyntax \<longrightarrow>
        fst (Atoi (Getenv w ''SMTP_PORT'')) = 0)
   \<and> (snd (Atoi (Getenv w ''SMTP_PORT'')) = Some ErrRange \<longrightarrow>
        fst (Atoi (Getenv w ''SMTP_PORT'')) = 9223372036854775807
        \<or> fst (Atoi (Getenv w ''SMTP_PORT'')) = - 9223372036854775808)
   \<and> (\<forall>s'. fst (Atoi s') = fst (Atoi (Getenv w ''SMTP_PORT'')) \<longrightarrow>
        sendEmails (w\<lparr>Getenv := (Getenv w)(''SMTP_PORT'' := s')\<rparr>) mb = sendEmails w mb)"
  using configureDialer_port configureDialer_cases Atoi_syntax_zero Atoi_range_bound
    sendEmails_same_port
  by blast

text \<open>
  Claim C10 as amended, with \<^verbatim>\<open>SMTP_PORT=abc\<close> (port 0, same behaviour as
  \<^verbatim>\<open>SMTP_PORT=0\<close>) and with a port of twenty digits (range error).
\<close>

theorem port_parse_error_discarded_witness:
  "fst (Atoi ''abc'') = 0
   \<and> sendEmails ((exampleWorld ''abc'' ''TLS'' alwaysDelivered)
        \<lparr>Getenv := (Getenv (exampleWorld ''abc'' ''TLS'' alwaysDelivered))(''SMTP_PORT'' := ''0'')\<rparr>)
        (exampleBody [helloTo [addrB]]) =
      sendEmails (exampleWorld ''abc'' ''TLS'' alwaysDelivered) (exampleBody [helloTo [addrB]])
   \<and> Port (exampleDialer\<lparr>Port := 0\<rparr>) = fst (Atoi ''abc'')
   \<and> fst (Atoi ''99999999999999999999'') = 9223372036854775807"
proof -
  let ?w = "exampleWorld ''abc'' ''TLS'' alwaysDelivered"
  let ?big = "exampleWorld ''99999999999999999999'' ''TLS'' alwaysDelivered"
  let ?mb = "exampleBody [helloTo [addrB]]"
  have syn: "snd (Atoi (Getenv ?w ''SMTP_PORT'')) = Some ErrSyntax"
    by (simp add: example_env atoi_abc)
  have rng: "snd (Atoi (Getenv ?big ''SMTP_PORT'')) = Some ErrRange"
    by (simp add: example_env atoi_range)
  have same: "fst (Atoi ''0'') = fst (Atoi (Getenv ?w ''SMTP_PORT''))"
    by (simp add: example_env atoi_abc atoi_zero)
  have d: "configureDialer ?w = Inr (exampleDialer\<lparr>Port := 0\<rparr>)"
    by (simp add: configureDialer_def example_env exampleWorld_def exampleEnv_def atoi_abc
          NewDialer_def exampleDialer_def)
  have a: "fst (Atoi (Getenv ?w ''SMTP_PORT'')) = 0"
    using port_parse_error_discarded [of ?w ?mb] syn by blast
  have b: "sendEmails (?w\<lparr>Getenv := (Getenv ?w)(''SMTP_PORT'' := ''0'')\<rparr>) ?mb = sendEmails ?w ?mb"
    using port_parse_error_discarded [of ?w ?mb] same by blast
  have c: "Port (exampleDialer\<lparr>Port := 0\<rparr>) = fst (Atoi (Getenv ?w ''SMTP_PORT''))"
    using port_parse_error_discarded [of ?w ?mb] d by blast
  have e: "fst (Atoi (Getenv ?big ''SMTP_PORT'')) = 9223372036854775807
           \<or> fst (Atoi (Getenv ?big ''SMTP_PORT'')) = - 9223372036854775808"
    using port_parse_error_discarded [of ?big ?mb] rng by blast
  show ?thesis
    using a b c e by (simp add: example_env atoi_range)
qed

end
